theory Spec2Isabelle
  imports Main "HOL-Library.Sublist"
begin

section \<open>JavaScript strings\<close>

text \<open>
  A JavaScript string is modelled as a \<^typ>\<open>string\<close>, one \<^typ>\<open>char\<close> per code unit
  (code units above 255 are outside the model).  \<open>undefined\<close> is \<open>None\<close> of an option type.
  A string is falsy exactly when it is empty; \<open>undefined\<close> is falsy.
\<close>

text \<open>\<open>s.indexOf(pat) !== -1\<close>, and \<open>/pat/.test(s)\<close> for a pattern without metacharacters:
  \<open>pat\<close> occurs in \<open>s\<close> at some position, searched from the left.\<close>

fun str_includes :: "string \<Rightarrow> string \<Rightarrow> bool" where
  "str_includes [] pat = (pat = [])"
| "str_includes (c # cs) pat = (prefix pat (c # cs) \<or> str_includes cs pat)"

text \<open>Truthiness of a value of type \<open>string | undefined\<close>.\<close>

fun truthy :: "string option \<Rightarrow> bool" where
  "truthy None = False"
| "truthy (Some s) = (s \<noteq> [])"

text \<open>\<open>String.prototype.trim\<close>: white space and line terminators are removed at both ends
  (the code units 9 to 13, 32 and 160).\<close>

definition isWhiteSpace :: "char \<Rightarrow> bool" where
  "isWhiteSpace c = (of_char c \<in> {9, 10, 11, 12, 13, 32, 160 :: nat})"

definition trim :: "string \<Rightarrow> string" where
  "trim s = rev (dropWhile isWhiteSpace (rev (dropWhile isWhiteSpace s)))"

section \<open>The editor RPC channel\<close>

text \<open>
  \<open>EditorServerChannel\<close> and \<open>SelfChannel\<close> hold a counter of request ids and the map
  \<open>_outstandingRequests\<close> from a request id to the \<open>Deferred\<close> made for it.  A deferred is
  an object: the map holds its address, and the heap \<open>deferreds\<close> its promise's state.
  Settling a promise that is already settled does nothing.
\<close>

datatype SettledValue =
    Resolution string
  | Rejection string
  | OtherKind string

record ResponseWrapper =
  resp_id :: int
  resp_value :: SettledValue

datatype promise_state = Unsettled | Resolved string | Rejected string

record channel =
  idCounter :: int
  outstandingRequests :: "int \<rightharpoonup> nat"
  deferreds :: "promise_state list"

datatype channel_error = UnknownResponseKind string

definition resolve_deferred :: "nat \<Rightarrow> string \<Rightarrow> channel \<Rightarrow> channel" where
  "resolve_deferred d v c =
     (if d < length (deferreds c) \<and> deferreds c ! d = Unsettled
      then c\<lparr>deferreds := (deferreds c)[d := Resolved v]\<rparr> else c)"

definition reject_deferred :: "nat \<Rightarrow> string \<Rightarrow> channel \<Rightarrow> channel" where
  "reject_deferred d v c =
     (if d < length (deferreds c) \<and> deferreds c ! d = Unsettled
      then c\<lparr>deferreds := (deferreds c)[d := Rejected v]\<rparr> else c)"

text \<open>The synchronous part of \<open>request\<close>: take the next id, make a deferred, record it.\<close>

definition request :: "channel \<Rightarrow> int \<times> channel" where
  "request c =
     (let i = idCounter c;
          d = length (deferreds c)
      in (i, c\<lparr>idCounter := i + 1,
               outstandingRequests := (outstandingRequests c)(i \<mapsto> d),
               deferreds := deferreds c @ [Unsettled]\<rparr>))"

text \<open>\<open>EditorServerChannel._handleResponse\<close>.\<close>

definition EditorServerChannel_handleResponse ::
  "channel \<Rightarrow> ResponseWrapper \<Rightarrow> channel_error + channel" where
  "EditorServerChannel_handleResponse c response =
     (case outstandingRequests c (resp_id response) of
        None \<Rightarrow> Inr c
      | Some deferred \<Rightarrow>
          (case resp_value response of
             Resolution v \<Rightarrow> Inr (resolve_deferred deferred v c)
           | Rejection v \<Rightarrow> Inr (reject_deferred deferred v c)
           | OtherKind k \<Rightarrow> Inl (UnknownResponseKind k)))"

text \<open>\<open>SelfChannel._handleResponse\<close>: the same text in the other class.\<close>

definition SelfChannel_handleResponse ::
  "channel \<Rightarrow> ResponseWrapper \<Rightarrow> channel_error + channel" where
  "SelfChannel_handleResponse c response =
     (case outstandingRequests c (resp_id response) of
        None \<Rightarrow> Inr c
      | Some deferred \<Rightarrow>
          (case resp_value response of
             Resolution v \<Rightarrow> Inr (resolve_deferred deferred v c)
           | Rejection v \<Rightarrow> Inr (reject_deferred deferred v c)
           | OtherKind k \<Rightarrow> Inl (UnknownResponseKind k)))"

section \<open>Comments attached to an HTML node\<close>

text \<open>
  \<open>getAttachedCommentText\<close> of \<open>model/inline-document.ts\<close>.  \<open>dom5.nodeWalkAllPrior\<close> (a library)
  and \<open>jsdoc.unindent\<close> (not among the sources) are parameters: the first gives the comment
  nodes before the node, nearest first.
\<close>

record CommentNode =
  data :: string

definition getAttachedCommentText ::
  "(string \<Rightarrow> string) \<Rightarrow> ('n \<Rightarrow> CommentNode list) \<Rightarrow> 'n \<Rightarrow> string option" where
  "getAttachedCommentText unindent nodeWalkAllPrior node =
     (let parentComments = nodeWalkAllPrior node;
          comment = (case parentComments of [] \<Rightarrow> None | c # _ \<Rightarrow> Some (data c))
      in if \<not> truthy comment \<or> str_includes (the comment) ''@license'' then None
         else Some (trim (unindent (the comment))))"

section \<open>The behavior scanner\<close>

subsection \<open>Scanned features\<close>

record SourcePosition =
  pos_line :: int
  pos_column :: int

record SourceRange =
  range_file :: string
  range_start :: SourcePosition
  range_end :: SourcePosition

record ScannedEvent =
  event_name :: string
  event_description :: string

record ScannedProperty =
  property_name :: string
  property_type :: string

text \<open>The parsed doc comment of a behavior: its tags, each with a title and a name.\<close>

type_synonym Annotation = "(string \<times> string option) list"

record ScannedBehavior =
  className :: "string option"
  description :: "string option"
  demos :: "string list"
  events :: "ScannedEvent list"
  properties :: "ScannedProperty list"
  observers :: "string list"
  behaviors :: "string list"
  jsdoc :: "Annotation option"
  sourceRange :: SourceRange

text \<open>
  Modelled from the spec: the class \<open>ScannedBehavior\<close> (\<open>polymer/behavior-descriptor.ts\<close>) is
  not among the sources.  The constructor is given a description, the events and a source
  range; by the spec's data model the lists of a new record are empty and it has no name yet.
\<close>

definition newScannedBehavior ::
  "string option \<Rightarrow> ScannedEvent list \<Rightarrow> SourceRange \<Rightarrow> ScannedBehavior" where
  "newScannedBehavior d es r =
     \<lparr>className = None, description = d, demos = [], events = es, properties = [],
      observers = [], behaviors = [], jsdoc = None, sourceRange = r\<rparr>"

text \<open>
  Modelled from the spec: \<open>ScannedBehavior.addProperty\<close> is not among the sources.  The spec
  says of the properties: a set keyed by name, last write wins; each new property is added
  or overwrites by name.
\<close>

definition addProperty :: "ScannedProperty \<Rightarrow> ScannedBehavior \<Rightarrow> ScannedBehavior" where
  "addProperty p b =
     b\<lparr>properties :=
         (if list_ex (\<lambda>q. property_name q = property_name p) (properties b)
          then map (\<lambda>q. if property_name q = property_name p then p else q) (properties b)
          else properties b @ [p])\<rparr>"

subsection \<open>\<open>dedupe\<close>\<close>

text \<open>
  \<open>dedupe\<close> collects the elements in a plain object \<open>bucket = {}\<close>, keyed by \<open>keyFunc\<close>.
  The test \<open>key in bucket\<close> follows the prototype chain, so on the empty object it already
  holds for the property names of \<open>Object.prototype\<close>.  The object's own properties are an
  association list in insertion order.  \<open>Object.keys\<close> lists the keys that are array indices
  (canonical decimal numerals below \<open>2^32 - 1\<close>) first, in ascending order, and then the
  other keys in insertion order.
\<close>

definition objectPrototypeKeys :: "string list" where
  "objectPrototypeKeys =
     [''constructor'', ''__defineGetter__'', ''__defineSetter__'', ''hasOwnProperty'',
      ''__lookupGetter__'', ''__lookupSetter__'', ''isPrototypeOf'',
      ''propertyIsEnumerable'', ''toString'', ''valueOf'', ''__proto__'',
      ''toLocaleString'']"

definition key_in :: "string \<Rightarrow> (string \<times> 'a) list \<Rightarrow> bool" where
  "key_in k bucket = (k \<in> set objectPrototypeKeys \<or> k \<in> set (map fst bucket))"

definition isDigit :: "char \<Rightarrow> bool" where
  "isDigit c = (48 \<le> (of_char c :: nat) \<and> (of_char c :: nat) \<le> 57)"

definition digitsValue :: "string \<Rightarrow> nat" where
  "digitsValue s = foldl (\<lambda>n c. 10 * n + (of_char c - 48)) 0 s"

definition arrayIndex :: "string \<Rightarrow> nat option" where
  "arrayIndex s =
     (if s \<noteq> [] \<and> list_all isDigit s \<and> (length s = 1 \<or> hd s \<noteq> CHR ''0'')
         \<and> digitsValue s < 2 ^ 32 - 1
      then Some (digitsValue s) else None)"

definition objectKeys :: "(string \<times> 'a) list \<Rightarrow> string list" where
  "objectKeys bucket =
     (let ks = map fst bucket
      in sort_key (\<lambda>k. the (arrayIndex k)) (filter (\<lambda>k. arrayIndex k \<noteq> None) ks)
         @ filter (\<lambda>k. arrayIndex k = None) ks)"

definition dedupe :: "'a list \<Rightarrow> ('a \<Rightarrow> string) \<Rightarrow> 'a list" where
  "dedupe array keyFunc =
     (let bucket = foldl (\<lambda>bucket el.
                      let key = keyFunc el
                      in if key_in key bucket then bucket else bucket @ [(key, el)])
                    [] array
      in map (\<lambda>k. the (map_of bucket k)) (objectKeys bucket))"

subsection \<open>The syntax tree\<close>

text \<open>
  The part of ESTree the scanner looks at.  An array literal is taken without holes.
  \<open>OtherExpression\<close> and \<open>OtherNode\<close> stand for the node types the scanner does not
  distinguish, with the type's name.
\<close>

datatype expr =
    Identifier string
  | MemberExpression expr expr bool
  | ArrayExpression "expr list"
  | ObjectExpression "(expr \<times> expr) list"
  | AssignmentExpression expr expr
  | OtherExpression string

datatype node =
    ExpressionStatement expr
  | VariableDeclaration "(expr \<times> expr option) list"
  | Expression expr
  | OtherNode string

text \<open>
  What the scanner calls and the sources do not hold: \<open>esutil\<close>, \<open>astValue\<close>, \<open>docs\<close>,
  \<open>jsdoc\<close>, the document's source ranges and the table of \<open>declarationPropertyHandlers\<close>
  (\<open>hasHandler\<close> is \<open>name in this.propertyHandlers\<close>; a handler updates the declaration
  the table was made for).
\<close>

record collaborators =
  getAttachedComment :: "node \<Rightarrow> string option"
  getEventComments :: "node \<Rightarrow> ScannedEvent list"
  objectKeyToString :: "expr \<Rightarrow> string option"
  getIdentifierName :: "expr \<Rightarrow> string option"
  sourceRangeForNode :: "node \<Rightarrow> SourceRange"
  annotateBehavior :: "ScannedBehavior \<Rightarrow> ScannedBehavior"
  hasTag :: "Annotation option \<Rightarrow> string \<Rightarrow> bool"
  getTag :: "Annotation option \<Rightarrow> string \<Rightarrow> string \<Rightarrow> string option"
  hasHandler :: "string \<Rightarrow> bool"
  applyHandler :: "string \<Rightarrow> expr \<Rightarrow> ScannedBehavior \<Rightarrow> ScannedBehavior"
  toScannedPolymerProperty :: "expr \<times> expr \<Rightarrow> ScannedProperty"

subsection \<open>\<open>BehaviorVisitor\<close>\<close>

text \<open>
  Scanned behaviors are objects, and the visitor holds references to them: \<open>heap\<close> maps an
  address to the record there, \<open>found\<close> is the set \<open>this.behaviors\<close> in insertion order,
  \<open>currentBehavior\<close> is a reference or \<open>null\<close>, and \<open>propertyHandlers\<close> is \<open>null\<close> or the
  handler table, given by the declaration it was made for.
\<close>

record visitor =
  heap :: "ScannedBehavior list"
  found :: "nat list"
  currentBehavior :: "nat option"
  propertyHandlers :: "nat option"

datatype scan_error =
    UnableToDetermineName "string option"
  | CantDetermineKeyName
  | TypeError

definition templatizer :: string where
  "templatizer = ''Polymer.Templatizer''"

definition update_at :: "nat \<Rightarrow> (ScannedBehavior \<Rightarrow> ScannedBehavior) \<Rightarrow> visitor \<Rightarrow> visitor" where
  "update_at a f v = v\<lparr>heap := (heap v)[a := f (heap v ! a)]\<rparr>"

text \<open>\<open>_startBehavior\<close> with a new object: the assertion only logs.\<close>

definition startBehavior :: "ScannedBehavior \<Rightarrow> visitor \<Rightarrow> visitor" where
  "startBehavior behavior v =
     v\<lparr>heap := heap v @ [behavior], currentBehavior := Some (length (heap v))\<rparr>"

text \<open>\<open>_finishBehavior\<close>: \<open>Set.add\<close> leaves a set alone that has the element.\<close>

definition finishBehavior :: "visitor \<Rightarrow> visitor" where
  "finishBehavior v =
     (case currentBehavior v of
        None \<Rightarrow> v
      | Some a \<Rightarrow>
          v\<lparr>found := (if a \<in> set (found v) then found v else found v @ [a]),
            currentBehavior := None\<rparr>)"

definition abandonBehavior :: "visitor \<Rightarrow> visitor" where
  "abandonBehavior v = v\<lparr>currentBehavior := None, propertyHandlers := None\<rparr>"

text \<open>The body of the loop of \<open>mergeBehavior\<close>, for the record \<open>behavior\<close> of the set that
  has the new record's name.\<close>

definition mergeInto :: "ScannedBehavior \<Rightarrow> ScannedBehavior \<Rightarrow> ScannedBehavior" where
  "mergeInto newBehavior behavior =
     (let b1 = (if truthy (description newBehavior)
                then (if truthy (description behavior)
                      then (if length (the (description newBehavior))
                                 > length (the (description behavior))
                            then behavior\<lparr>description := description newBehavior\<rparr>
                            else behavior)
                      else behavior\<lparr>description := description newBehavior\<rparr>)
                else behavior);
          b2 = b1\<lparr>demos := demos b1 @ demos newBehavior\<rparr>;
          b3 = b2\<lparr>events := events b2 @ events newBehavior\<rparr>;
          b4 = b3\<lparr>events := dedupe (events b3) event_name\<rparr>;
          b5 = foldl (\<lambda>b property. addProperty property b) b4 (properties newBehavior);
          b6 = b5\<lparr>observers := observers b5 @ observers newBehavior\<rparr>
      in b6\<lparr>behaviors :=
              filter (\<lambda>b. \<not> str_includes b (the (className newBehavior)))
                (behaviors b6 @ behaviors newBehavior)\<rparr>)"

text \<open>\<open>mergeBehavior\<close>: the first record of the set with the new record's \<open>className\<close> is
  updated in place and returned; without one the new record is returned.\<close>

definition mergeBehavior :: "nat \<Rightarrow> visitor \<Rightarrow> nat \<times> visitor" where
  "mergeBehavior newBehavior v =
     (case find (\<lambda>a. className (heap v ! a) = className (heap v ! newBehavior)) (found v) of
        None \<Rightarrow> (newBehavior, v)
      | Some a \<Rightarrow> (a, update_at a (mergeInto (heap v ! newBehavior)) v))"

fun behaviorExpression :: "node \<Rightarrow> expr option" where
  "behaviorExpression (ExpressionStatement (AssignmentExpression l r)) = Some r"
| "behaviorExpression (ExpressionStatement e) = None"
| "behaviorExpression (VariableDeclaration []) = None"
| "behaviorExpression (VariableDeclaration ((i, init) # ds)) = init"
| "behaviorExpression n = None"

fun isReference :: "expr \<Rightarrow> bool" where
  "isReference (MemberExpression obj prop computed) = True"
| "isReference (Identifier n) = True"
| "isReference e = False"

fun isSimpleBehaviorArray :: "expr option \<Rightarrow> bool" where
  "isSimpleBehaviorArray (Some (ArrayExpression elements)) = list_all isReference elements"
| "isSimpleBehaviorArray e = False"

definition chainedNames :: "collaborators \<Rightarrow> expr list \<Rightarrow> string list" where
  "chainedNames K elements =
     map the (filter truthy (map (getIdentifierName K) elements))"

definition parseChainedBehaviors :: "collaborators \<Rightarrow> node \<Rightarrow> visitor \<Rightarrow> visitor" where
  "parseChainedBehaviors K n v =
     (case behaviorExpression n of
        Some (ArrayExpression elements) \<Rightarrow>
          (let chained = chainedNames K elements
           in if length chained > 0
              then update_at (the (currentBehavior v)) (\<lambda>b. b\<lparr>behaviors := chained\<rparr>) v
              else v)
      | _ \<Rightarrow> v)"

text \<open>\<open>_initBehavior\<close>; \<open>symbol\<close> is what \<open>getName()\<close> returns.\<close>

definition initBehavior ::
  "collaborators \<Rightarrow> node \<Rightarrow> string option \<Rightarrow> visitor \<Rightarrow> scan_error + visitor" where
  "initBehavior K n symbol v =
     (let comment = getAttachedComment K n
      in if (\<not> truthy comment \<or> \<not> str_includes (the comment) ''@polymerBehavior'')
            \<and> symbol \<noteq> Some templatizer
         then Inr v
         else
           let v1 = startBehavior
                      (newScannedBehavior comment (getEventComments K n)
                         (sourceRangeForNode K n)) v;
               cur = the (currentBehavior v1);
               v2 = v1\<lparr>propertyHandlers := Some cur\<rparr>;
               v3 = update_at cur (annotateBehavior K) v2
           in if \<not> hasTag K (jsdoc (heap v3 ! cur)) ''polymerBehavior''
                 \<and> symbol \<noteq> Some templatizer
              then Inr (abandonBehavior v3)
              else
                let explicitName = getTag K (jsdoc (heap v3 ! cur)) ''polymerBehavior'' ''name'';
                    name = (if truthy explicitName then explicitName else symbol);
                    v4 = update_at cur (\<lambda>b. b\<lparr>className := name\<rparr>) v3
                in if \<not> truthy name
                   then Inl (UnableToDetermineName comment)
                   else
                     let v5 = parseChainedBehaviors K n v4;
                         (merged, v6) = mergeBehavior cur v5;
                         v7 = v6\<lparr>currentBehavior := Some merged,
                                 propertyHandlers := Some merged\<rparr>
                     in if isSimpleBehaviorArray (behaviorExpression n)
                        then Inr (finishBehavior v7)
                        else Inr v7)"

definition enterVariableDeclaration ::
  "collaborators \<Rightarrow> node \<Rightarrow> visitor \<Rightarrow> scan_error + visitor" where
  "enterVariableDeclaration K n v =
     (case n of
        VariableDeclaration [(i, init)] \<Rightarrow> initBehavior K n (objectKeyToString K i) v
      | _ \<Rightarrow> Inr v)"

text \<open>\<open>enterAssignmentExpression\<close>: the statement looked at is the parent.\<close>

definition enterAssignmentExpression ::
  "collaborators \<Rightarrow> expr \<Rightarrow> node \<Rightarrow> visitor \<Rightarrow> scan_error + visitor" where
  "enterAssignmentExpression K e parent v =
     (case e of
        AssignmentExpression left right \<Rightarrow> initBehavior K parent (objectKeyToString K left) v
      | _ \<Rightarrow> Inr v)"

text \<open>The loop of \<open>enterObjectExpression\<close> over the properties of the literal.\<close>

fun objectProperties ::
  "collaborators \<Rightarrow> (expr \<times> expr) list \<Rightarrow> visitor \<Rightarrow> scan_error + visitor" where
  "objectProperties K [] v = Inr v"
| "objectProperties K (prop # props) v =
     (let name = objectKeyToString K (fst prop)
      in if \<not> truthy name then Inl CantDetermineKeyName
         else case propertyHandlers v of
                None \<Rightarrow> Inl TypeError
              | Some declaration \<Rightarrow>
                  if hasHandler K (the name)
                  then objectProperties K props
                         (update_at declaration (applyHandler K (the name) (snd prop)) v)
                  else objectProperties K props
                         (update_at (the (currentBehavior v))
                            (addProperty (toScannedPolymerProperty K prop)) v))"

definition enterObjectExpression ::
  "collaborators \<Rightarrow> expr \<Rightarrow> visitor \<Rightarrow> scan_error + visitor" where
  "enterObjectExpression K e v =
     (case currentBehavior v of
        None \<Rightarrow> Inr v
      | Some cur \<Rightarrow>
          (case e of
             ObjectExpression props \<Rightarrow>
               (case objectProperties K props v of
                  Inl err \<Rightarrow> Inl err
                | Inr v' \<Rightarrow> Inr (finishBehavior v'))
           | _ \<Rightarrow> Inr v))"

subsection \<open>Collaborators for the examples\<close>

text \<open>
  Simple stand-ins used where a statement is evaluated on an example: the attached
  comment and its parsed tags are given, a name is read off an identifier or a dotted
  member expression, and there are no special property handlers.
\<close>

fun dottedName :: "expr \<Rightarrow> string option" where
  "dottedName (Identifier n) = Some n"
| "dottedName (MemberExpression obj prop computed) =
     (case (dottedName obj, dottedName prop) of
        (Some a, Some b) \<Rightarrow> if computed then None else Some (a @ ''.'' @ b)
      | _ \<Rightarrow> None)"
| "dottedName e = None"

definition tagsHave :: "Annotation option \<Rightarrow> string \<Rightarrow> bool" where
  "tagsHave j t = (case j of None \<Rightarrow> False | Some tags \<Rightarrow> list_ex (\<lambda>tg. fst tg = t) tags)"

definition tagName :: "Annotation option \<Rightarrow> string \<Rightarrow> string \<Rightarrow> string option" where
  "tagName j t key =
     (case j of
        None \<Rightarrow> None
      | Some tags \<Rightarrow> (case find (\<lambda>tg. fst tg = t) tags of None \<Rightarrow> None | Some tg \<Rightarrow> snd tg))"

definition exampleRange :: SourceRange where
  "exampleRange =
     \<lparr>range_file = ''a.js'',
      range_start = \<lparr>pos_line = 0, pos_column = 0\<rparr>,
      range_end = \<lparr>pos_line = 0, pos_column = 9\<rparr>\<rparr>"

definition exampleK :: "string option \<Rightarrow> Annotation \<Rightarrow> collaborators" where
  "exampleK comment tags =
     \<lparr>getAttachedComment = (\<lambda>n. comment),
      getEventComments = (\<lambda>n. []),
      objectKeyToString = dottedName,
      getIdentifierName = dottedName,
      sourceRangeForNode = (\<lambda>n. exampleRange),
      annotateBehavior = (\<lambda>b. b\<lparr>jsdoc := Some tags\<rparr>),
      hasTag = tagsHave,
      getTag = tagName,
      hasHandler = (\<lambda>name. False),
      applyHandler = (\<lambda>name e b. b),
      toScannedPolymerProperty =
        (\<lambda>prop. \<lparr>property_name = the (dottedName (fst prop)), property_type = ''Object''\<rparr>)\<rparr>"

definition emptyVisitor :: visitor where
  "emptyVisitor = \<lparr>heap = [], found = [], currentBehavior = None, propertyHandlers = None\<rparr>"

text \<open>Every reference of the set of found behaviors points into the heap.\<close>

definition wellFormed :: "visitor \<Rightarrow> bool" where
  "wellFormed v =
     (list_all (\<lambda>a. a < length (heap v)) (found v)
      \<and> (currentBehavior v = None \<or> the (currentBehavior v) < length (heap v)))"

text \<open>
  The example of the comment on \<open>mergeBehavior\<close> (iron-multi-selectable): an object literal
  declared under the behavior's name, and then the behavior as an array of references.
  \<^verbatim>\<open>
  /** @polymerBehavior Polymer.IronMultiSelectableBehavior */
  Polymer.IronMultiSelectableBehaviorImpl = { multi: ... };
  /** @polymerBehavior */
  Polymer.IronMultiSelectableBehavior =
    [Polymer.IronSelectableBehavior, Polymer.IronMultiSelectableBehaviorImpl];
  \<close>
\<close>

definition polymerDot :: "string \<Rightarrow> expr" where
  "polymerDot name = MemberExpression (Identifier ''Polymer'') (Identifier name) False"

definition implLiteral :: expr where
  "implLiteral = ObjectExpression [(Identifier ''multi'', OtherExpression ''Literal'')]"

definition implAssignment :: expr where
  "implAssignment =
     AssignmentExpression (polymerDot ''IronMultiSelectableBehaviorImpl'') implLiteral"

definition implK :: collaborators where
  "implK = exampleK (Some ''@polymerBehavior Polymer.IronMultiSelectableBehavior'')
             [(''polymerBehavior'', Some ''Polymer.IronMultiSelectableBehavior'')]"

definition arrayLiteral :: expr where
  "arrayLiteral =
     ArrayExpression [polymerDot ''IronSelectableBehavior'',
                      polymerDot ''IronMultiSelectableBehaviorImpl'']"

definition arrayAssignment :: expr where
  "arrayAssignment =
     AssignmentExpression (polymerDot ''IronMultiSelectableBehavior'') arrayLiteral"

definition arrayK :: collaborators where
  "arrayK = exampleK (Some ''@polymerBehavior'') [(''polymerBehavior'', None)]"

text \<open>The visitor after the first of the two statements.\<close>

definition afterImpl :: "scan_error + visitor" where
  "afterImpl =
     (case enterAssignmentExpression implK implAssignment (ExpressionStatement implAssignment)
             emptyVisitor of
        Inl err \<Rightarrow> Inl err
      | Inr v \<Rightarrow> enterObjectExpression implK implLiteral v)"

text \<open>A record with an event named \<open>constructor\<close>, emitted, and a new record of the same
  name about to be merged.\<close>

definition constructorEvent :: ScannedEvent where
  "constructorEvent = \<lparr>event_name = ''constructor'', event_description = ''Fired once.''\<rparr>"

definition beforeMerge :: visitor where
  "beforeMerge =
     \<lparr>heap = [(newScannedBehavior (Some ''First.'') [constructorEvent] exampleRange)
                \<lparr>className := Some ''MyBehavior''\<rparr>,
              (newScannedBehavior (Some ''Second.'') [] exampleRange)
                \<lparr>className := Some ''MyBehavior''\<rparr>],
      found = [0], currentBehavior = Some 1, propertyHandlers = Some 1\<rparr>"

subsection \<open>The conditions of \<open>_initBehavior\<close>\<close>

text \<open>The record \<open>_initBehavior\<close> builds for a candidate, after \<open>docs.annotateBehavior\<close>.\<close>

definition annotatedCandidate :: "collaborators \<Rightarrow> node \<Rightarrow> ScannedBehavior" where
  "annotatedCandidate K n =
     annotateBehavior K
       (newScannedBehavior (getAttachedComment K n) (getEventComments K n)
          (sourceRangeForNode K n))"

text \<open>The first filter: the comment has the text of the tag, or the name is the sentinel.\<close>

definition mentionsTag :: "collaborators \<Rightarrow> node \<Rightarrow> bool" where
  "mentionsTag K n =
     (truthy (getAttachedComment K n)
      \<and> sublist ''@polymerBehavior'' (the (getAttachedComment K n)))"

text \<open>The second filter: the parsed doc comment has the tag.\<close>

definition parsedTag :: "collaborators \<Rightarrow> node \<Rightarrow> bool" where
  "parsedTag K n = hasTag K (jsdoc (annotatedCandidate K n)) ''polymerBehavior''"

text \<open>The name of the record: the tag's \<open>name\<close>, or else the symbol.\<close>

definition candidateName :: "collaborators \<Rightarrow> node \<Rightarrow> string option \<Rightarrow> string option" where
  "candidateName K n symbol =
     (let explicitName = getTag K (jsdoc (annotatedCandidate K n)) ''polymerBehavior'' ''name''
      in if truthy explicitName then explicitName else symbol)"

text \<open>A declaration \<^verbatim>\<open>var helper = {};\<close>, under a comment without the tag's text and under a
  comment that has the text \<open>@polymerBehavior\<close> in a sentence, where it is not a tag.\<close>

definition helperDeclaration :: node where
  "helperDeclaration = VariableDeclaration [(Identifier ''helper'', Some (ObjectExpression []))]"

definition plainK :: collaborators where
  "plainK = exampleK (Some ''A helper.'') []"

definition mentionK :: collaborators where
  "mentionK = exampleK (Some ''Works with any @polymerBehavior of the page.'') []"

section \<open>The analyzer\<close>

subsection \<open>Documents, features and warnings\<close>

datatype Severity = ERROR | WARNING | INFO

record Warning =
  warning_message :: string
  warning_sourceRange :: SourceRange
  warning_severity :: Severity
  warning_code :: string

record LocationOffset =
  offset_line :: int
  offset_col :: int
  offset_filename :: "string option"

text \<open>What is thrown and what a promise is rejected with: the two error classes the
  analyzer tells apart, and any other \<open>Error\<close> with its message.\<close>

datatype js_error =
    NoKnownParserError string
  | WarningCarryingException Warning
  | Error string

record ParsedDocument =
  doc_type :: string
  doc_url :: string
  doc_contents :: string

text \<open>The features the analyzer tells apart.  A \<open>ScannedElement\<close> is opaque here (its
  class is not among the sources); the back-links \<open>scannedDocument\<close> of an import and of an
  inline document are written by the analyzer and read by nothing in it, and are left out.\<close>

datatype ScannedFeature =
    ScannedImport (import_type: string) (import_url: string)
      (import_sourceRange: SourceRange) (import_urlSourceRange: SourceRange)
  | InlineParsedDocument (inline_type: string) (inline_contents: string)
      (inline_locationOffset: LocationOffset) (inline_attachedComment: "string option")
      (inline_sourceRange: SourceRange)
  | ScannedElement string
  | OtherFeature string

datatype ScannedDocument =
  ScannedDocument (sd_document: ParsedDocument) (sd_dependencies: "ScannedDocument list")
    (sd_features: "ScannedFeature list") (sd_locationOffset: LocationOffset)
    (sd_warnings: "Warning list") (sd_isInline: bool)

subsection \<open>The collaborators of the analyzer\<close>

text \<open>
  The loader, the optional resolver, the parsers by file type and the scanners by document
  type are the analyzer's options.  \<open>loader_load\<close> is what the promise of \<open>load\<close> settles to;
  \<open>scanners\<close> gives, for a document type with scanners, what \<open>scan(document, scanners)\<close>
  settles to.  \<open>path.extname\<close>, the methods of \<open>ScannedElement\<close>, \<open>correctSourceRange\<close> and the
  \<open>stack\<close> of an error are not among the sources and are parameters too.
\<close>

record world =
  resolver :: "((string \<Rightarrow> bool) \<times> (string \<Rightarrow> string)) option"
  canLoad :: "string \<Rightarrow> bool"
  loader_load :: "string \<Rightarrow> js_error + string"
  extname :: "string \<Rightarrow> string"
  parsers :: "string \<rightharpoonup> (string \<Rightarrow> string \<Rightarrow> js_error + ParsedDocument)"
  scanners :: "string \<rightharpoonup> (ParsedDocument \<Rightarrow> js_error + ScannedFeature list)"
  applyLocationOffset :: "LocationOffset \<Rightarrow> string \<Rightarrow> string"
  applyHtmlComment :: "string option \<Rightarrow> string \<Rightarrow> string"
  correctSourceRange :: "SourceRange \<Rightarrow> LocationOffset \<Rightarrow> SourceRange"
  errorStack :: "js_error \<Rightarrow> string"

subsection \<open>Promises and suspended functions\<close>

text \<open>
  JavaScript runs one piece of code at a time: an \<open>async\<close> function runs until it reaches
  an \<open>await\<close>, and is resumed later, when what it awaits has settled.  The state holds
  the promises (by address) and the suspended functions.  A suspended function is a task:
  the place where it waits (a \<open>frame\<close>, with the local variables it still needs), what it
  waits for, and the promise it settles when it returns or throws.

  Where an \<open>async\<close> function returns the promise of another (\<open>_scanResolved\<close> and
  \<open>_loadResolved\<close> return the cached promise; the job of \<open>_scanResolved\<close> returns
  \<open>_scanDocument\<close>'s; \<open>_scanSource\<close> and the arrow functions of \<open>_scanDocument\<close> return what
  they call), the two promises settle alike and are one promise here.
\<close>

datatype val =
    ParsedDoc ParsedDocument
  | ScannedDoc ScannedDocument
  | Null
  | Values "val list"

datatype outcome = Pending | Fulfilled val | Rejected js_error

datatype wait = Tick | Await nat | AwaitAll "nat list"

datatype frame =
    ScanResolved_job string "string option"
  | ScanResolved_loaded
  | LoadResolved_job string "string option"
  | LoadResolved_content string
  | ScanDocument_features ParsedDocument LocationOffset "string option" nat
  | ScanDocument_all ParsedDocument "ScannedFeature list" LocationOffset nat
  | ScanInlineDocument_source LocationOffset nat
  | ScanImport_resolved SourceRange nat
  | AnalyzeRoot_scanned

datatype task = Task frame wait nat

text \<open>
  The analyzer: its two caches, the promises, the suspended functions, the \<open>warnings\<close>
  arrays of the running calls of \<open>_scanDocument\<close> (by address), and three logs kept for the
  statements below: the URLs the loader was asked for, the (type, URL) pairs a parser was
  called with, and the URLs for which \<open>_scanResolved\<close> started a computation.
\<close>

record analyzer =
  parsedDocuments :: "string \<rightharpoonup> nat"
  scannedDocuments :: "string \<rightharpoonup> nat"
  promises :: "outcome list"
  tasks :: "task list"
  arrays :: "Warning list list"
  loaded :: "string list"
  parsed :: "(string \<times> string) list"
  started :: "string list"

definition newAnalyzer :: analyzer where
  "newAnalyzer =
     \<lparr>parsedDocuments = Map.empty, scannedDocuments = Map.empty, promises = [], tasks = [],
      arrays = [], loaded = [], parsed = [], started = []\<rparr>"

definition newPromise :: "outcome \<Rightarrow> analyzer \<Rightarrow> nat \<times> analyzer" where
  "newPromise oc s = (length (promises s), s\<lparr>promises := promises s @ [oc]\<rparr>)"

definition outcome_of :: "analyzer \<Rightarrow> nat \<Rightarrow> outcome" where
  "outcome_of s p = (if p < length (promises s) then promises s ! p else Pending)"

text \<open>A promise settles once.\<close>

definition settle :: "nat \<Rightarrow> outcome \<Rightarrow> analyzer \<Rightarrow> analyzer" where
  "settle p oc s =
     (if outcome_of s p = Pending then s\<lparr>promises := (promises s)[p := oc]\<rparr> else s)"

definition spawn :: "task \<Rightarrow> analyzer \<Rightarrow> analyzer" where
  "spawn t s = s\<lparr>tasks := tasks s @ [t]\<rparr>"

definition newArray :: "analyzer \<Rightarrow> nat \<times> analyzer" where
  "newArray s = (length (arrays s), s\<lparr>arrays := arrays s @ [[]]\<rparr>)"

definition push :: "nat \<Rightarrow> Warning \<Rightarrow> analyzer \<Rightarrow> analyzer" where
  "push a w s = s\<lparr>arrays := (arrays s)[a := arrays s ! a @ [w]]\<rparr>"

subsection \<open>The methods of \<open>Analyzer\<close>, up to their first \<open>await\<close>\<close>

definition resolveUrl :: "world \<Rightarrow> string \<Rightarrow> string" where
  "resolveUrl W url =
     (case resolver W of
        None \<Rightarrow> url
      | Some (canResolve, resolve) \<Rightarrow> if canResolve url then resolve url else url)"

text \<open>\<open>_parse\<close>.\<close>

definition parse ::
  "world \<Rightarrow> string \<Rightarrow> string \<Rightarrow> string \<Rightarrow> analyzer \<Rightarrow> (js_error + ParsedDocument) \<times> analyzer" where
  "parse W type contents url s =
     (case parsers W type of
        None \<Rightarrow> (Inl (NoKnownParserError (''No parser for for file type '' @ type)), s)
      | Some parser \<Rightarrow>
          (case parser contents url of
             Inr d \<Rightarrow> Inr d
           | Inl (WarningCarryingException w) \<Rightarrow> Inl (WarningCarryingException w)
           | Inl error \<Rightarrow>
               Inl (Error (''Error parsing '' @ url @ [CHR '':'', CHR 0x0A, CHR '' '']
                           @ errorStack W error)),
           s\<lparr>parsed := parsed s @ [(type, url)]\<rparr>))"

text \<open>\<open>_scanResolved\<close>: on a miss the job is created suspended at its first \<open>await\<close>, and
  cached.\<close>

definition scanResolved :: "string \<Rightarrow> string option \<Rightarrow> analyzer \<Rightarrow> nat \<times> analyzer" where
  "scanResolved resolvedUrl contents s =
     (case scannedDocuments s resolvedUrl of
        Some cachedResult \<Rightarrow> (cachedResult, s)
      | None \<Rightarrow>
          (let (promise, s1) = newPromise Pending s;
               s2 = spawn (Task (ScanResolved_job resolvedUrl contents) Tick promise) s1
           in (promise,
               s2\<lparr>scannedDocuments := (scannedDocuments s2)(resolvedUrl \<mapsto> promise),
                  started := started s2 @ [resolvedUrl]\<rparr>)))"

text \<open>\<open>_loadResolved\<close>: a URL the loader cannot load gives a rejected promise, which is not
  cached.\<close>

definition loadResolved ::
  "world \<Rightarrow> string \<Rightarrow> string option \<Rightarrow> analyzer \<Rightarrow> nat \<times> analyzer" where
  "loadResolved W resolvedUrl providedContents s =
     (case parsedDocuments s resolvedUrl of
        Some cachedResult \<Rightarrow> (cachedResult, s)
      | None \<Rightarrow>
          if \<not> canLoad W resolvedUrl
          then newPromise (Rejected (Error (''Can't load URL: '' @ resolvedUrl))) s
          else
            (let (promise, s1) = newPromise Pending s;
                 s2 = spawn (Task (LoadResolved_job resolvedUrl providedContents) Tick promise) s1
             in (promise,
                 s2\<lparr>parsedDocuments := (parsedDocuments s2)(resolvedUrl \<mapsto> promise)\<rparr>)))"

text \<open>\<open>_scanDocument\<close> up to \<open>await this._getScannedFeatures(document)\<close>; \<open>target\<close> is the
  promise of the call.  (A document is never \<open>null\<close> here.)\<close>

definition scanDocument ::
  "ParsedDocument \<Rightarrow> LocationOffset option \<Rightarrow> string option \<Rightarrow> nat \<Rightarrow> analyzer \<Rightarrow> analyzer" where
  "scanDocument doc maybeLocationOffset maybeAttachedComment target s =
     (let locationOffset =
            (case maybeLocationOffset of
               Some l \<Rightarrow> l
             | None \<Rightarrow> \<lparr>offset_line = 0, offset_col = 0, offset_filename = Some (doc_url doc)\<rparr>);
          (warnings, s1) = newArray s
      in spawn (Task (ScanDocument_features doc locationOffset maybeAttachedComment warnings)
                  Tick target) s1)"

definition getScannedFeatures :: "world \<Rightarrow> ParsedDocument \<Rightarrow> js_error + ScannedFeature list" where
  "getScannedFeatures W doc =
     (case scanners W (doc_type doc) of
        Some scan \<Rightarrow> scan doc
      | None \<Rightarrow> Inr [])"

text \<open>\<open>_scanInlineDocument\<close> up to \<open>await this._scanSource(...)\<close>, with \<open>_scanSource\<close> up to its
  \<open>await\<close>: a parse that throws rejects the promise of \<open>_scanSource\<close>.\<close>

definition scanInlineDocument ::
  "world \<Rightarrow> ScannedFeature \<Rightarrow> ParsedDocument \<Rightarrow> nat \<Rightarrow> analyzer \<Rightarrow> nat \<times> analyzer" where
  "scanInlineDocument W inlineDoc containingDocument warnings s =
     (let locationOffset =
            \<lparr>offset_line = offset_line (inline_locationOffset inlineDoc),
             offset_col = offset_col (inline_locationOffset inlineDoc),
             offset_filename = Some (doc_url containingDocument)\<rparr>;
          resolvedUrl = resolveUrl W (doc_url containingDocument);
          (r, s1) = parse W (inline_type inlineDoc) (inline_contents inlineDoc) resolvedUrl s;
          (source, s2) = newPromise Pending s1;
          s3 = (case r of
                  Inl error \<Rightarrow> settle source (Rejected error) s2
                | Inr doc \<Rightarrow>
                    scanDocument doc (Some locationOffset) (inline_attachedComment inlineDoc)
                      source s2);
          (promise, s4) = newPromise Pending s3
      in (promise,
          spawn (Task (ScanInlineDocument_source locationOffset warnings) (Await source) promise)
            s4))"

text \<open>\<open>_scanImport\<close> up to \<open>await this._scanResolved(...)\<close>.\<close>

definition scanImport ::
  "world \<Rightarrow> ScannedFeature \<Rightarrow> nat \<Rightarrow> analyzer \<Rightarrow> nat \<times> analyzer" where
  "scanImport W scannedImport warnings s =
     (let (resolved, s1) = scanResolved (resolveUrl W (import_url scannedImport)) None s;
          (promise, s2) = newPromise Pending s1
      in (promise,
          spawn (Task (ScanImport_resolved (import_sourceRange scannedImport) warnings)
                   (Await resolved) promise) s2))"

text \<open>The arrow function \<open>_scanDocument\<close> maps over the dependencies.\<close>

fun scanDependency ::
  "world \<Rightarrow> ParsedDocument \<Rightarrow> nat \<Rightarrow> ScannedFeature \<Rightarrow> analyzer \<Rightarrow> nat \<times> analyzer" where
  "scanDependency W doc warnings (InlineParsedDocument t c l a r) s =
     scanInlineDocument W (InlineParsedDocument t c l a r) doc warnings s"
| "scanDependency W doc warnings (ScannedImport t u r ur) s =
     scanImport W (ScannedImport t u r ur) warnings s"
| "scanDependency W doc warnings f s =
     newPromise (Rejected (Error ''Unexpected dependency type'')) s"

fun scanDependencies ::
  "world \<Rightarrow> ParsedDocument \<Rightarrow> nat \<Rightarrow> ScannedFeature list \<Rightarrow> analyzer \<Rightarrow> nat list \<times> analyzer" where
  "scanDependencies W doc warnings [] s = ([], s)"
| "scanDependencies W doc warnings (f # fs) s =
     (let (p, s1) = scanDependency W doc warnings f s;
          (ps, s2) = scanDependencies W doc warnings fs s1
      in (p # ps, s2))"

fun isDependency :: "ScannedFeature \<Rightarrow> bool" where
  "isDependency (InlineParsedDocument t c l a r) = True"
| "isDependency (ScannedImport t u r ur) = True"
| "isDependency f = False"

text \<open>\<open>analyzeRoot\<close> up to \<open>await this._scanResolved(resolvedUrl, contents)\<close>.  The
  \<open>Document\<close> made of the scanned document at the end is not modelled: the promise of
  \<open>analyzeRoot\<close> is fulfilled with the scanned document.\<close>

definition evict :: "string \<Rightarrow> analyzer \<Rightarrow> analyzer" where
  "evict resolvedUrl s =
     s\<lparr>scannedDocuments := (scannedDocuments s)(resolvedUrl := None),
       parsedDocuments := (parsedDocuments s)(resolvedUrl := None)\<rparr>"

definition analyzeRoot :: "world \<Rightarrow> string \<Rightarrow> string option \<Rightarrow> analyzer \<Rightarrow> nat \<times> analyzer" where
  "analyzeRoot W url contents s =
     (let resolvedUrl = resolveUrl W url;
          s1 = (if contents \<noteq> None then evict resolvedUrl s else s);
          (scannedDocument, s2) = scanResolved resolvedUrl contents s1;
          (promise, s3) = newPromise Pending s2
      in (promise, spawn (Task AnalyzeRoot_scanned (Await scannedDocument) promise) s3))"

subsection \<open>Resuming a suspended function\<close>

text \<open>What a task is resumed with: an \<open>await\<close> of a settled promise gives its outcome;
  \<open>Promise.all\<close> is rejected as soon as one of its promises is, and fulfilled with all the
  values when all are fulfilled; \<open>await Promise.resolve()\<close> and the awaits of the scanners
  and of the loader (\<open>Tick\<close>) only suspend.\<close>

fun isRejected :: "outcome \<Rightarrow> bool" where
  "isRejected (Rejected e) = True"
| "isRejected oc = False"

fun isFulfilled :: "outcome \<Rightarrow> bool" where
  "isFulfilled (Fulfilled v) = True"
| "isFulfilled oc = False"

fun isPending :: "outcome \<Rightarrow> bool" where
  "isPending Pending = True"
| "isPending oc = False"

fun fulfilledWith :: "outcome \<Rightarrow> val" where
  "fulfilledWith (Fulfilled v) = v"
| "fulfilledWith oc = Null"

fun awaited :: "analyzer \<Rightarrow> wait \<Rightarrow> outcome" where
  "awaited s Tick = Fulfilled Null"
| "awaited s (Await p) = outcome_of s p"
| "awaited s (AwaitAll ps) =
     (case find isRejected (map (outcome_of s) ps) of
        Some r \<Rightarrow> r
      | None \<Rightarrow>
          if list_all isFulfilled (map (outcome_of s) ps)
          then Fulfilled (Values (map (\<lambda>p. fulfilledWith (outcome_of s p)) ps))
          else Pending)"

text \<open>The rest of the job of \<open>_loadResolved\<close>, once it has the content.\<close>

definition parseLoaded :: "world \<Rightarrow> string \<Rightarrow> string \<Rightarrow> nat \<Rightarrow> analyzer \<Rightarrow> analyzer" where
  "parseLoaded W resolvedUrl content target s =
     (let extension = drop 1 (extname W resolvedUrl);
          (r, s1) = parse W extension content resolvedUrl s
      in settle target (case r of Inl error \<Rightarrow> Rejected error
                                | Inr parsedDoc \<Rightarrow> Fulfilled (ParsedDoc parsedDoc)) s1)"

text \<open>The message of an error, as \<open>${error.message || error}\<close> prints it.\<close>

fun errorMessage :: "js_error \<Rightarrow> string" where
  "errorMessage (NoKnownParserError m) = (if m = [] then ''Error'' else m)"
| "errorMessage (WarningCarryingException w) =
     (if warning_message w = [] then ''Error'' else warning_message w)"
| "errorMessage (Error m) = (if m = [] then ''Error'' else m)"

definition couldNotLoad :: "js_error \<Rightarrow> SourceRange \<Rightarrow> Warning" where
  "couldNotLoad error importRange =
     \<lparr>warning_message = ''Unable to load import: '' @ errorMessage error,
      warning_sourceRange = importRange,
      warning_severity = ERROR,
      warning_code = ''could-not-load''\<rparr>"

fun setInline :: "ScannedDocument \<Rightarrow> ScannedDocument" where
  "setInline (ScannedDocument d deps fs off ws i) = ScannedDocument d deps fs off ws True"

text \<open>\<open>.filter(s => !!s)\<close> on the values of \<open>Promise.all\<close>.\<close>

fun nonNull :: "val list \<Rightarrow> ScannedDocument list" where
  "nonNull [] = []"
| "nonNull (ScannedDoc d # vs) = d # nonNull vs"
| "nonNull (v # vs) = nonNull vs"

text \<open>The two loops of \<open>_scanDocument\<close> over the features: the offset is applied to every
  \<open>ScannedElement\<close>, the attached comment to the first feature if it is one.\<close>

fun offsetFeature :: "world \<Rightarrow> LocationOffset \<Rightarrow> ScannedFeature \<Rightarrow> ScannedFeature" where
  "offsetFeature W off (ScannedElement e) = ScannedElement (applyLocationOffset W off e)"
| "offsetFeature W off f = f"

fun commentFirst :: "world \<Rightarrow> string option \<Rightarrow> ScannedFeature list \<Rightarrow> ScannedFeature list" where
  "commentFirst W c (ScannedElement e # fs) = ScannedElement (applyHtmlComment W c e) # fs"
| "commentFirst W c fs = fs"

text \<open>
  \<open>resume W f r target\<close> runs the function suspended at \<open>f\<close>, resumed with \<open>r\<close>, up to its
  next \<open>await\<close> or to its end, where it settles \<open>target\<close>.  The cases follow the source:
  the two jobs, \<open>_scanDocument\<close> (after the features, and after \<open>Promise.all\<close>), the
  \<open>try\<close>/\<open>catch\<close> of \<open>_scanInlineDocument\<close> and of \<open>_scanImport\<close>, and \<open>analyzeRoot\<close>.
\<close>

definition resume :: "world \<Rightarrow> frame \<Rightarrow> outcome \<Rightarrow> nat \<Rightarrow> analyzer \<Rightarrow> analyzer" where
  "resume W f r target s =
     (case f of
        ScanResolved_job resolvedUrl contents \<Rightarrow>
          (let (doc, s1) = loadResolved W resolvedUrl contents s
           in spawn (Task ScanResolved_loaded (Await doc) target) s1)
      | ScanResolved_loaded \<Rightarrow>
          (case r of
             Fulfilled (ParsedDoc doc) \<Rightarrow> scanDocument doc None None target s
           | Rejected error \<Rightarrow> settle target (Rejected error) s
           | _ \<Rightarrow> s)
      | LoadResolved_job resolvedUrl providedContents \<Rightarrow>
          (case providedContents of
             None \<Rightarrow>
               spawn (Task (LoadResolved_content resolvedUrl) Tick target)
                 (s\<lparr>loaded := loaded s @ [resolvedUrl]\<rparr>)
           | Some content \<Rightarrow> parseLoaded W resolvedUrl content target s)
      | LoadResolved_content resolvedUrl \<Rightarrow>
          (case loader_load W resolvedUrl of
             Inl error \<Rightarrow> settle target (Rejected error) s
           | Inr content \<Rightarrow> parseLoaded W resolvedUrl content target s)
      | ScanDocument_features doc locationOffset maybeAttachedComment warnings \<Rightarrow>
          (case getScannedFeatures W doc of
             Inl error \<Rightarrow> settle target (Rejected error) s
           | Inr fs \<Rightarrow>
               (let scannedFeatures =
                      commentFirst W maybeAttachedComment (map (offsetFeature W locationOffset) fs);
                    scannedDependencies = filter isDependency scannedFeatures;
                    (scannedSubDocuments, s1) =
                      scanDependencies W doc warnings scannedDependencies s
                in spawn (Task (ScanDocument_all doc scannedFeatures locationOffset warnings)
                            (AwaitAll scannedSubDocuments) target) s1))
      | ScanDocument_all doc scannedFeatures locationOffset warnings \<Rightarrow>
          (case r of
             Fulfilled (Values vs) \<Rightarrow>
               settle target
                 (Fulfilled (ScannedDoc
                    (ScannedDocument doc (nonNull vs) scannedFeatures locationOffset
                       (arrays s ! warnings) False))) s
           | Rejected error \<Rightarrow> settle target (Rejected error) s
           | _ \<Rightarrow> s)
      | ScanInlineDocument_source locationOffset warnings \<Rightarrow>
          (case r of
             Fulfilled (ScannedDoc scannedDocument) \<Rightarrow>
               settle target (Fulfilled (ScannedDoc (setInline scannedDocument))) s
           | Rejected (WarningCarryingException w) \<Rightarrow>
               settle target (Fulfilled Null)
                 (push warnings
                    (w\<lparr>warning_sourceRange :=
                         correctSourceRange W (warning_sourceRange w) locationOffset\<rparr>) s)
           | Rejected error \<Rightarrow> settle target (Rejected error) s
           | _ \<Rightarrow> s)
      | ScanImport_resolved importRange warnings \<Rightarrow>
          (case r of
             Fulfilled scannedDocument \<Rightarrow> settle target (Fulfilled scannedDocument) s
           | Rejected (NoKnownParserError m) \<Rightarrow> settle target (Fulfilled Null) s
           | Rejected error \<Rightarrow>
               settle target (Fulfilled Null) (push warnings (couldNotLoad error importRange) s)
           | _ \<Rightarrow> s)
      | AnalyzeRoot_scanned \<Rightarrow>
          (case r of
             Fulfilled scannedDocument \<Rightarrow> settle target (Fulfilled scannedDocument) s
           | Rejected error \<Rightarrow> settle target (Rejected error) s
           | _ \<Rightarrow> s))"

subsection \<open>Running\<close>

text \<open>One step resumes the task that has waited longest among those whose wait is over;
  there is no step when every task still waits.\<close>

fun pick :: "analyzer \<Rightarrow> task list \<Rightarrow> task list \<Rightarrow> (task \<times> task list) option" where
  "pick s waiting [] = None"
| "pick s waiting (Task f w target # ts) =
     (if isPending (awaited s w) then pick s (waiting @ [Task f w target]) ts
      else Some (Task f w target, waiting @ ts))"

definition step :: "world \<Rightarrow> analyzer \<Rightarrow> analyzer option" where
  "step W s =
     (case pick s [] (tasks s) of
        None \<Rightarrow> None
      | Some (Task f w target, rest) \<Rightarrow> Some (resume W f (awaited s w) target (s\<lparr>tasks := rest\<rparr>)))"

fun run :: "nat \<Rightarrow> world \<Rightarrow> analyzer \<Rightarrow> analyzer" where
  "run 0 W s = s"
| "run (Suc n) W s = (case step W s of None \<Rightarrow> s | Some s' \<Rightarrow> run n W s')"

subsection \<open>A small site for the examples\<close>

text \<open>
  Four pages: \<open>a.html\<close> and \<open>b.html\<close> import each other; \<open>index.html\<close> imports \<open>data.xyz\<close>
  (a type without parser), \<open>missing.html\<close> (which the loader cannot load) and \<open>leaf.html\<close>
  (which imports nothing), and holds an inline script the parser rejects with a warning;
  \<open>broken.html\<close> holds an inline document of a type without parser.  The stand-in for the
  HTML scanners reads the features off the page's URL and contents.
\<close>

definition extnameOf :: "string \<Rightarrow> string" where
  "extnameOf path =
     (if CHR ''.'' \<in> set path then CHR ''.'' # rev (takeWhile (\<lambda>c. c \<noteq> CHR ''.'') (rev path))
      else [])"

definition importOf :: "string \<Rightarrow> ScannedFeature" where
  "importOf url = ScannedImport ''html-import'' url exampleRange exampleRange"

definition badScript :: ScannedFeature where
  "badScript =
     InlineParsedDocument ''js'' ''var = ;''
       \<lparr>offset_line = 3, offset_col = 8, offset_filename = None\<rparr> None exampleRange"

definition unknownInline :: ScannedFeature where
  "unknownInline =
     InlineParsedDocument ''coffee'' ''x = 1''
       \<lparr>offset_line = 1, offset_col = 0, offset_filename = None\<rparr> None exampleRange"

definition syntaxWarning :: Warning where
  "syntaxWarning =
     \<lparr>warning_message = ''Unexpected token'', warning_sourceRange = exampleRange,
      warning_severity = ERROR, warning_code = ''parse-error''\<rparr>"

definition siteFiles :: "string \<Rightarrow> js_error + string" where
  "siteFiles url =
     (if url = ''a.html'' then Inr ''imports b''
      else if url = ''b.html'' then Inr ''imports a''
      else if url = ''index.html'' then Inr ''index''
      else if url = ''leaf.html'' then Inr ''leaf''
      else if url = ''broken.html'' then Inr ''broken''
      else if url = ''data.xyz'' then Inr ''data''
      else Inl (Error (''ENOENT: '' @ url)))"

definition siteScan :: "ParsedDocument \<Rightarrow> js_error + ScannedFeature list" where
  "siteScan doc =
     (if doc_contents doc = ''imports b'' then Inr [importOf ''b.html'']
      else if doc_contents doc = ''imports a'' then Inr [importOf ''a.html'']
      else if doc_contents doc = ''imports leaf'' then Inr [importOf ''leaf.html'']
      else if doc_contents doc = ''index''
        then Inr [ScannedElement ''x-index'', importOf ''data.xyz'', importOf ''missing.html'',
                  badScript, importOf ''leaf.html'']
      else if doc_contents doc = ''broken'' then Inr [importOf ''leaf.html'', unknownInline]
      else Inr [])"

definition shiftRange :: "SourceRange \<Rightarrow> LocationOffset \<Rightarrow> SourceRange" where
  "shiftRange r off =
     r\<lparr>range_start := \<lparr>pos_line = pos_line (range_start r) + offset_line off,
                        pos_column = pos_column (range_start r) + offset_col off\<rparr>,
       range_end := \<lparr>pos_line = pos_line (range_end r) + offset_line off,
                      pos_column = pos_column (range_end r) + offset_col off\<rparr>\<rparr>"

definition site :: world where
  "site =
     \<lparr>resolver = None,
      canLoad = (\<lambda>url. url \<noteq> ''missing.html''),
      loader_load = siteFiles,
      extname = extnameOf,
      parsers = [''html'' \<mapsto> (\<lambda>contents url.
                    Inr \<lparr>doc_type = ''html'', doc_url = url, doc_contents = contents\<rparr>),
                 ''js'' \<mapsto> (\<lambda>contents url. Inl (WarningCarryingException syntaxWarning))],
      scanners = [''html'' \<mapsto> siteScan],
      applyLocationOffset = (\<lambda>off e. e),
      applyHtmlComment = (\<lambda>c e. e),
      correctSourceRange = shiftRange,
      errorStack = errorMessage\<rparr>"

text \<open>The analysis of \<open>index.html\<close> by a new analyzer: as started, and as finished (after
  23 steps nothing is left to run).\<close>

definition indexStart :: analyzer where
  "indexStart = snd (analyzeRoot site ''index.html'' None newAnalyzer)"

definition indexDone :: analyzer where
  "indexDone = run 23 site indexStart"

text \<open>Then \<open>index.html\<close> is analyzed again, with fresh contents that import \<open>leaf.html\<close>.\<close>

definition indexAgain :: analyzer where
  "indexAgain = snd (analyzeRoot site ''index.html'' (Some ''imports leaf'') indexDone)"

definition cantLoadMissing :: js_error where
  "cantLoadMissing = Error ''Can't load URL: missing.html''"

definition noCoffeeParser :: js_error where
  "noCoffeeParser = NoKnownParserError ''No parser for for file type coffee''"

definition brokenStart :: analyzer where
  "brokenStart = snd (analyzeRoot site ''broken.html'' None newAnalyzer)"

section \<open>Results: strings\<close>

lemma includes_sublist: "str_includes s pat = sublist pat s"
proof (induction s)
  case Nil
  show ?case by auto
next
  case (Cons c cs)
  show ?case
    using Cons.IH by (auto simp: sublist_Cons_right)
qed

section \<open>Results: the behavior scanner\<close>

subsection \<open>References stay inside the heap\<close>

lemma update_at_proj:
  "length (heap (update_at a f v)) = length (heap v)"
  "found (update_at a f v) = found v"
  "currentBehavior (update_at a f v) = currentBehavior v"
  "propertyHandlers (update_at a f v) = propertyHandlers v"
  by (simp_all add: update_at_def)

lemma parseChainedBehaviors_proj:
  "length (heap (parseChainedBehaviors K n v)) = length (heap v)"
  "found (parseChainedBehaviors K n v) = found v"
  "currentBehavior (parseChainedBehaviors K n v) = currentBehavior v"
  "propertyHandlers (parseChainedBehaviors K n v) = propertyHandlers v"
  by (simp_all add: parseChainedBehaviors_def update_at_proj Let_def
      split: option.splits expr.splits)

lemma wellFormed_update_at: "wellFormed (update_at a f v) = wellFormed v"
  by (simp add: wellFormed_def update_at_proj)

lemma wellFormed_finishBehavior: "wellFormed v \<Longrightarrow> wellFormed (finishBehavior v)"
  by (auto simp: wellFormed_def finishBehavior_def list_all_iff split: option.splits)

lemma mergeBehavior_proj:
  assumes "mergeBehavior a v = (m, v')"
  shows "length (heap v') = length (heap v)" "found v' = found v"
    "currentBehavior v' = currentBehavior v" "m = a \<or> m \<in> set (found v)"
  using assms
  by (auto simp: mergeBehavior_def update_at_proj find_Some_iff split: option.splits)

lemma wellFormed_parseChainedBehaviors:
  "wellFormed (parseChainedBehaviors K n v) = wellFormed v"
  by (simp add: wellFormed_def parseChainedBehaviors_proj)

lemma wellFormed_startBehavior:
  "wellFormed v \<Longrightarrow> wellFormed (startBehavior b v\<lparr>propertyHandlers := h\<rparr>)"
  by (auto simp: wellFormed_def startBehavior_def list_all_iff)

lemma wellFormed_merged:
  assumes "wellFormed w" "currentBehavior w = Some c" "mergeBehavior c w = (m, v6)"
  shows "wellFormed (v6\<lparr>currentBehavior := Some m, propertyHandlers := Some m\<rparr>)"
  using assms mergeBehavior_proj[OF assms(3)]
  by (auto simp: wellFormed_def list_all_iff)

lemma wellFormed_abandonBehavior: "wellFormed v \<Longrightarrow> wellFormed (abandonBehavior v)"
  by (simp add: wellFormed_def abandonBehavior_def)

lemma wellFormed_initBehavior:
  assumes wf: "wellFormed v" and init: "initBehavior K n symbol v = Inr v'"
  shows "wellFormed v'"
proof -
  define v3 where "v3 = update_at (length (heap v)) (annotateBehavior K)
     ((startBehavior (newScannedBehavior (getAttachedComment K n)
      (getEventComments K n) (sourceRangeForNode K n)) v)\<lparr>propertyHandlers := Some (length (heap v))\<rparr>)"
  have wf3: "wellFormed v3" and cur3: "currentBehavior v3 = Some (length (heap v))"
  proof -
    show "wellFormed v3"
      using wf by (simp add: v3_def wellFormed_update_at wellFormed_startBehavior)
    show "currentBehavior v3 = Some (length (heap v))"
      by (simp add: v3_def update_at_proj startBehavior_def)
  qed
  have wf5: "wellFormed (parseChainedBehaviors K n (update_at a f v3))"
    and cur5: "currentBehavior (parseChainedBehaviors K n (update_at a f v3)) = Some (length (heap v))" for a f
    using wf3 cur3
    by (simp_all add: wellFormed_parseChainedBehaviors wellFormed_update_at
        parseChainedBehaviors_proj update_at_proj)
  have cur_eq: "the (currentBehavior (startBehavior b v)) = length (heap v)" for b
    by (simp add: startBehavior_def)
  show ?thesis
    using init wf wellFormed_abandonBehavior[OF wf3]
      wellFormed_merged[OF wf5 cur5] wellFormed_finishBehavior[OF wellFormed_merged[OF wf5 cur5]]
    unfolding initBehavior_def Let_def cur_eq v3_def[symmetric]
    by (auto split: if_splits prod.splits)
qed

lemma wellFormed_objectProperties:
  "wellFormed v \<Longrightarrow> objectProperties K props v = Inr v' \<Longrightarrow> wellFormed v'"
proof (induction props arbitrary: v)
  case Nil
  then show ?case by simp
next
  case (Cons p ps)
  have wf_step: "wellFormed (update_at a f v)" for a f
    using Cons.prems(1) by (simp add: wellFormed_update_at)
  show ?case
    using Cons.prems(2) Cons.IH[OF wf_step]
    by (auto simp: Let_def split: if_splits option.splits)
qed

lemma wellFormed_enterObjectExpression:
  "wellFormed v \<Longrightarrow> enterObjectExpression K e v = Inr v' \<Longrightarrow> wellFormed v'"
  by (auto simp: enterObjectExpression_def wellFormed_finishBehavior
      split: option.splits expr.splits sum.splits dest: wellFormed_objectProperties)

lemma wellFormed_emptyVisitor: "wellFormed emptyVisitor"
  by (simp add: wellFormed_def emptyVisitor_def)


subsection \<open>What \<open>mergeBehavior\<close> does to the fields\<close>

lemma addProperty_other_fields:
  "className (addProperty p b) = className b"
  "description (addProperty p b) = description b"
  "demos (addProperty p b) = demos b"
  "events (addProperty p b) = events b"
  "observers (addProperty p b) = observers b"
  "behaviors (addProperty p b) = behaviors b"
  by (simp_all add: addProperty_def)

lemma addProperties_other_fields:
  "className (foldl (\<lambda>b p. addProperty p b) b ps) = className b"
  "description (foldl (\<lambda>b p. addProperty p b) b ps) = description b"
  "demos (foldl (\<lambda>b p. addProperty p b) b ps) = demos b"
  "events (foldl (\<lambda>b p. addProperty p b) b ps) = events b"
  "observers (foldl (\<lambda>b p. addProperty p b) b ps) = observers b"
  "behaviors (foldl (\<lambda>b p. addProperty p b) b ps) = behaviors b"
  by (induction ps arbitrary: b) (simp_all add: addProperty_other_fields)

lemma mergeInto_fields:
  "className (mergeInto new old) = className old"
  "demos (mergeInto new old) = demos old @ demos new"
  "events (mergeInto new old) = dedupe (events old @ events new) event_name"
  "observers (mergeInto new old) = observers old @ observers new"
  "behaviors (mergeInto new old) =
     filter (\<lambda>b. \<not> sublist (the (className new)) b) (behaviors old @ behaviors new)"
  "description (mergeInto new old) =
     (if truthy (description new) \<and>
         (\<not> truthy (description old)
          \<or> length (the (description old)) < length (the (description new)))
      then description new else description old)"
  by (simp_all add: mergeInto_def Let_def addProperties_other_fields includes_sublist)

text \<open>
  C6.  An evaluation: a record named \<open>MyBehavior\<close> with one event, named \<open>constructor\<close>, has
  been emitted, and a second declaration of the same name is merged into it.  The merge
  returns the emitted record, and afterwards that record has no event at all: \<open>dedupe\<close>
  never stores an element whose key is a property name of \<open>Object.prototype\<close>.
\<close>

theorem mergeBehavior_loses_event:
  "fst (mergeBehavior 1 beforeMerge) = 0 \<and>
   found (snd (mergeBehavior 1 beforeMerge)) = [0] \<and>
   events (heap beforeMerge ! 0) = [constructorEvent] \<and>
   events (heap (snd (mergeBehavior 1 beforeMerge)) ! 0) = [] \<and>
   dedupe [constructorEvent] event_name = []"
  by code_simp

text \<open>
  C7, as the claim states it, fails on the example of the comment on \<open>mergeBehavior\<close>: the
  assignment of the array \<open>[Polymer.IronSelectableBehavior,
  Polymer.IronMultiSelectableBehaviorImpl]\<close> is promoted and every element is a dotted
  reference, but a record of that name has been emitted before.  No new record is emitted;
  the emitted record keeps its property \<open>multi\<close>, and its list of behaviors is not the list
  of the element names.
\<close>

theorem simple_array_merged_counterexample:
  "(case afterImpl of
      Inl err \<Rightarrow> False
    | Inr v \<Rightarrow>
        (case enterAssignmentExpression arrayK arrayAssignment
                (ExpressionStatement arrayAssignment) v of
           Inl err \<Rightarrow> False
         | Inr v' \<Rightarrow>
             found v = [0] \<and> found v' = [0] \<and> currentBehavior v' = None \<and>
             behaviors (heap v' ! 0) = [''Polymer.IronSelectableBehavior''] \<and>
             properties (heap v' ! 0) =
               [\<lparr>property_name = ''multi'', property_type = ''Object''\<rparr>]))"
  by code_simp

text \<open>
  C7, amended.  Let a declaration or assignment pass both filters of \<open>_initBehavior\<close> and
  have a name; let its initializer be an array literal whose elements are all identifiers
  or member expressions, each with a name; let the annotated new record have no properties
  and no behaviors yet; and let no emitted record have the same \<open>className\<close>.  Then
  \<open>_initBehavior\<close> emits the new record at once (it is added to the set and nothing is
  current afterwards), its behaviors are the element names in source order, it has no
  properties, and \<open>enterObjectExpression\<close> does nothing in the resulting state.
\<close>

theorem simple_array_emitted:
  assumes wf: "wellFormed v"
    and promoted: "mentionsTag K n \<or> symbol = Some templatizer"
    and tagged: "parsedTag K n \<or> symbol = Some templatizer"
    and name: "truthy (candidateName K n symbol)"
    and arr: "behaviorExpression n = Some (ArrayExpression es)"
    and simple: "list_all isReference es"
    and names: "list_all (\<lambda>e. truthy (getIdentifierName K e)) es"
    and annot: "properties (annotatedCandidate K n) = []"
               "behaviors (annotatedCandidate K n) = []"
    and noprior: "list_all (\<lambda>a. className (heap v ! a) \<noteq> candidateName K n symbol) (found v)"
  shows "\<exists>v'. initBehavior K n symbol v = Inr v' \<and> currentBehavior v' = None
       \<and> found v' = found v @ [length (heap v)]
       \<and> className (heap v' ! length (heap v)) = candidateName K n symbol
       \<and> behaviors (heap v' ! length (heap v)) = map (\<lambda>e. the (getIdentifierName K e)) es
       \<and> properties (heap v' ! length (heap v)) = []
       \<and> (\<forall>e. enterObjectExpression K e v' = Inr v')"
proof -
  have ch: "chainedNames K es = map (\<lambda>e. the (getIdentifierName K e)) es"
    using names by (induction es) (auto simp: chainedNames_def)
  have nf: "length (heap v) \<notin> set (found v)"
    using wf by (auto simp: wellFormed_def list_all_iff)
  have fresh:
    "find (\<lambda>a. className ((heap v @ [b\<lparr>className := c\<rparr>]) ! a) = c) (found v) = None"
    "find (\<lambda>a. className ((heap v @ [b\<lparr>className := c, behaviors := bs\<rparr>]) ! a) = c)
       (found v) = None"
    if "c = candidateName K n symbol" for b c bs
    using wf noprior that by (auto simp: find_None_iff wellFormed_def list_all_iff nth_append)
  show ?thesis
  proof (cases "es = []")
    case True
    then show ?thesis
      using promoted tagged name arr annot nf fresh
      by (auto simp: initBehavior_def Let_def includes_sublist startBehavior_def update_at_def
          mentionsTag_def parsedTag_def annotatedCandidate_def candidateName_def
          parseChainedBehaviors_def chainedNames_def mergeBehavior_def finishBehavior_def
          enterObjectExpression_def)
  next
    case False
    then show ?thesis
      using promoted tagged name arr annot nf fresh simple ch
      by (auto simp: initBehavior_def Let_def includes_sublist startBehavior_def update_at_def
          mentionsTag_def parsedTag_def annotatedCandidate_def candidateName_def
          parseChainedBehaviors_def mergeBehavior_def finishBehavior_def
          enterObjectExpression_def)
  qed
qed

theorem simple_array_emitted_witness:
  "wellFormed emptyVisitor \<and>
   mentionsTag arrayK (ExpressionStatement arrayAssignment) \<and>
   parsedTag arrayK (ExpressionStatement arrayAssignment) \<and>
   candidateName arrayK (ExpressionStatement arrayAssignment)
       (Some ''Polymer.IronMultiSelectableBehavior'')
     = Some ''Polymer.IronMultiSelectableBehavior'' \<and>
   (\<exists>v'. enterAssignmentExpression arrayK arrayAssignment
            (ExpressionStatement arrayAssignment) emptyVisitor = Inr v'
       \<and> currentBehavior v' = None \<and> found v' = [0]
       \<and> className (heap v' ! 0) = Some ''Polymer.IronMultiSelectableBehavior''
       \<and> behaviors (heap v' ! 0)
           = [''Polymer.IronSelectableBehavior'', ''Polymer.IronMultiSelectableBehaviorImpl'']
       \<and> properties (heap v' ! 0) = []
       \<and> enterObjectExpression arrayK implLiteral v' = Inr v')"
proof -
  let ?n = "ExpressionStatement arrayAssignment"
  let ?s = "Some ''Polymer.IronMultiSelectableBehavior''"
  let ?es = "[polymerDot ''IronSelectableBehavior'', polymerDot ''IronMultiSelectableBehaviorImpl'']"
  have h1: "wellFormed emptyVisitor"
    by (rule wellFormed_emptyVisitor)
  have h2: "mentionsTag arrayK ?n"
    unfolding mentionsTag_def includes_sublist [symmetric] by code_simp
  have h3: "parsedTag arrayK ?n"
    by code_simp
  have h4: "candidateName arrayK ?n ?s = ?s"
    by code_simp
  have h5: "behaviorExpression ?n = Some (ArrayExpression ?es)"
    by (simp add: arrayAssignment_def arrayLiteral_def)
  have h6: "list_all isReference ?es"
    by (simp add: polymerDot_def)
  have h7: "list_all (\<lambda>e. truthy (getIdentifierName arrayK e)) ?es"
    by (simp add: polymerDot_def arrayK_def exampleK_def)
  have h8: "properties (annotatedCandidate arrayK ?n) = []"
    "behaviors (annotatedCandidate arrayK ?n) = []"
    by (simp_all add: annotatedCandidate_def arrayK_def exampleK_def newScannedBehavior_def)
  have h9: "list_all (\<lambda>a. className (heap emptyVisitor ! a) \<noteq> candidateName arrayK ?n ?s)
              (found emptyVisitor)"
    by (simp add: emptyVisitor_def)
  have name: "truthy (candidateName arrayK ?n ?s)"
    unfolding h4 by simp
  have sym: "objectKeyToString arrayK (polymerDot ''IronMultiSelectableBehavior'') = ?s"
    by (simp add: arrayK_def exampleK_def polymerDot_def)
  have names: "map (\<lambda>e. the (getIdentifierName arrayK e)) ?es
      = [''Polymer.IronSelectableBehavior'', ''Polymer.IronMultiSelectableBehaviorImpl'']"
    by (simp add: polymerDot_def arrayK_def exampleK_def)
  from simple_array_emitted [OF h1 disjI1 [OF h2] disjI1 [OF h3] name h5 h6 h7 h8 h9]
  obtain v' where v': "initBehavior arrayK ?n ?s emptyVisitor = Inr v'"
      "currentBehavior v' = None" "found v' = found emptyVisitor @ [length (heap emptyVisitor)]"
      "className (heap v' ! length (heap emptyVisitor)) = candidateName arrayK ?n ?s"
      "behaviors (heap v' ! length (heap emptyVisitor))
         = map (\<lambda>e. the (getIdentifierName arrayK e)) ?es"
      "properties (heap v' ! length (heap emptyVisitor)) = []"
      "\<And>e. enterObjectExpression arrayK e v' = Inr v'"
    by blast
  have enter: "enterAssignmentExpression arrayK arrayAssignment ?n emptyVisitor = Inr v'"
    using v'(1) sym by (simp add: enterAssignmentExpression_def arrayAssignment_def)
  have len: "length (heap emptyVisitor) = 0" "found emptyVisitor = []"
    by (simp_all add: emptyVisitor_def)
  show ?thesis
    using h1 h2 h3 h4 enter v'(2-7) names unfolding len by auto
qed

text \<open>
  C8.  A candidate whose comment does not have the text \<open>@polymerBehavior\<close> (or that has no
  comment) and whose name is not \<open>Polymer.Templatizer\<close> leaves the visitor as it was: no
  record is started or emitted.  A candidate whose comment has the text, but whose parsed
  doc comment has no \<open>polymerBehavior\<close> tag, and whose name is not the sentinel, is abandoned:
  afterwards nothing is current, the handlers are reset, and the set of emitted records and
  every record in the heap are as before.
\<close>

theorem initBehavior_requires_tag:
  "(\<not> mentionsTag K n \<and> symbol \<noteq> Some templatizer \<longrightarrow> initBehavior K n symbol v = Inr v) \<and>
   (mentionsTag K n \<and> \<not> parsedTag K n \<and> symbol \<noteq> Some templatizer \<longrightarrow>
      (\<exists>v'. initBehavior K n symbol v = Inr v' \<and> currentBehavior v' = None
             \<and> propertyHandlers v' = None \<and> found v' = found v
             \<and> take (length (heap v)) (heap v') = heap v))"
  by (auto simp: initBehavior_def Let_def includes_sublist startBehavior_def update_at_def
      abandonBehavior_def mentionsTag_def parsedTag_def annotatedCandidate_def)

theorem initBehavior_requires_tag_witness:
  "\<not> mentionsTag plainK helperDeclaration \<and>
   Some ''helper'' \<noteq> Some templatizer \<and>
   enterVariableDeclaration plainK helperDeclaration emptyVisitor = Inr emptyVisitor \<and>
   mentionsTag mentionK helperDeclaration \<and>
   \<not> parsedTag mentionK helperDeclaration \<and>
   (\<exists>v'. enterVariableDeclaration mentionK helperDeclaration emptyVisitor = Inr v'
      \<and> currentBehavior v' = None \<and> propertyHandlers v' = None \<and> found v' = [])"
proof -
  have h1: "\<not> mentionsTag plainK helperDeclaration"
    unfolding mentionsTag_def includes_sublist [symmetric] by code_simp
  have h2: "Some ''helper'' \<noteq> Some templatizer"
    by (simp add: templatizer_def)
  have h3: "mentionsTag mentionK helperDeclaration"
    unfolding mentionsTag_def includes_sublist [symmetric] by code_simp
  have h4: "\<not> parsedTag mentionK helperDeclaration"
    by code_simp
  have e1: "enterVariableDeclaration plainK helperDeclaration emptyVisitor
      = initBehavior plainK helperDeclaration (Some ''helper'') emptyVisitor"
    by (simp add: enterVariableDeclaration_def helperDeclaration_def plainK_def exampleK_def)
  have e2: "enterVariableDeclaration mentionK helperDeclaration emptyVisitor
      = initBehavior mentionK helperDeclaration (Some ''helper'') emptyVisitor"
    by (simp add: enterVariableDeclaration_def helperDeclaration_def mentionK_def exampleK_def)
  have f: "found emptyVisitor = []"
    by (simp add: emptyVisitor_def)
  show ?thesis
    using initBehavior_requires_tag [of plainK helperDeclaration "Some ''helper''" emptyVisitor]
      initBehavior_requires_tag [of mentionK helperDeclaration "Some ''helper''" emptyVisitor]
      h1 h2 h3 h4
    unfolding e1 e2 f by auto
qed

section \<open>Results: the analyzer\<close>

lemma nonNull_append: "nonNull (vs @ ws) = nonNull vs @ nonNull ws"
  by (induction vs rule: nonNull.induct) simp_all

lemma outcome_settle:
  "target < length (promises s) \<Longrightarrow> promises s ! target = Pending \<Longrightarrow>
   outcome_of (settle target oc s) target = oc"
  by (simp add: settle_def outcome_of_def)

lemma awaited_all_rejected:
  assumes "outcome_of s target = Rejected e"
    and "list_all (\<lambda>p. \<not> isRejected (outcome_of s p)) ps"
  shows "awaited s (AwaitAll (ps @ [target] @ ps')) = Rejected e"
proof -
  have "find isRejected (map (outcome_of s) ps @ Rejected e # rest) = Some (Rejected e)" for rest
    using assms(2) by (induction ps) auto
  then show ?thesis
    using assms(1) by simp
qed


text \<open>
  C3.  \<open>analyzeRoot\<close> for a URL with fresh contents leaves, when it suspends, no parse-cache
  entry for the resolved URL and a new pending computation in its scan-cache entry: a new
  job that holds the fresh contents has been started, and a computation started earlier
  is no longer in either cache.  Whatever the contents, the entries of every other URL
  are unchanged, and a request for another URL that has a scan-cache entry is answered
  with that entry without starting anything.  Without fresh contents the parse cache is
  unchanged and every scan-cache entry stays.
\<close>

theorem analyzeRoot_fresh_contents:
  "(let u = resolveUrl W url; s' = snd (analyzeRoot W url contents s) in
   (contents \<noteq> None \<longrightarrow>
       parsedDocuments (evict u s) u = None \<and> scannedDocuments (evict u s) u = None
     \<and> parsedDocuments s' u = None
     \<and> scannedDocuments s' u = Some (length (promises s))
     \<and> outcome_of s' (length (promises s)) = Pending
     \<and> tasks s' = tasks s @ [Task (ScanResolved_job u contents) Tick (length (promises s)),
           Task AnalyzeRoot_scanned (Await (length (promises s))) (Suc (length (promises s)))]
     \<and> started s' = started s @ [u])
   \<and> (\<forall>v. v \<noteq> u \<longrightarrow> parsedDocuments s' v = parsedDocuments s v
                        \<and> scannedDocuments s' v = scannedDocuments s v)
   \<and> (\<forall>v p c. v \<noteq> u \<and> scannedDocuments s v = Some p \<longrightarrow> scanResolved v c s' = (p, s'))
   \<and> (contents = None \<longrightarrow> parsedDocuments s' = parsedDocuments s
         \<and> (\<forall>v p. scannedDocuments s v = Some p \<longrightarrow> scannedDocuments s' v = Some p)))"
  by (auto simp: analyzeRoot_def Let_def evict_def scanResolved_def newPromise_def spawn_def
      outcome_of_def nth_append split: option.splits prod.splits)

theorem analyzeRoot_fresh_contents_witness:
  "parsedDocuments indexDone ''index.html'' = Some 2 \<and>
   scannedDocuments indexDone ''index.html'' = Some 0 \<and>
   scannedDocuments indexDone ''leaf.html'' = Some 9 \<and>
   length (promises indexDone) = 14 \<and>
   parsedDocuments indexAgain ''index.html'' = None \<and>
   scannedDocuments indexAgain ''index.html'' = Some 14 \<and>
   parsedDocuments indexAgain ''leaf.html'' = parsedDocuments indexDone ''leaf.html'' \<and>
   scannedDocuments indexAgain ''leaf.html'' = Some 9 \<and>
   scanResolved ''leaf.html'' None indexAgain = (9, indexAgain) \<and>
   (let s = run 8 site indexAgain in
      step site s = None \<and>
      loaded s = loaded indexDone \<and>
      parsed s = parsed indexDone @ [(''html'', ''index.html'')] \<and>
      started s = started indexDone @ [''index.html''] \<and>
      (case outcome_of s 15 of
         Fulfilled (ScannedDoc d) \<Rightarrow>
           doc_contents (sd_document d) = ''imports leaf'' \<and>
           map (doc_url \<circ> sd_document) (sd_dependencies d) = [''leaf.html'']
       | _ \<Rightarrow> False))"
proof -
  have r: "resolveUrl site ''index.html'' = ''index.html''"
    by (simp add: resolveUrl_def site_def)
  have before: "parsedDocuments indexDone ''index.html'' = Some 2"
    "scannedDocuments indexDone ''index.html'' = Some 0"
    "scannedDocuments indexDone ''leaf.html'' = Some 9"
    "length (promises indexDone) = 14"
    by code_simp+
  have after: "(let s = run 8 site indexAgain in
      step site s = None \<and>
      loaded s = loaded indexDone \<and>
      parsed s = parsed indexDone @ [(''html'', ''index.html'')] \<and>
      started s = started indexDone @ [''index.html''] \<and>
      (case outcome_of s 15 of
         Fulfilled (ScannedDoc d) \<Rightarrow>
           doc_contents (sd_document d) = ''imports leaf'' \<and>
           map (doc_url \<circ> sd_document) (sd_dependencies d) = [''leaf.html'']
       | _ \<Rightarrow> False))"
    by code_simp
  have ne: "''leaf.html'' \<noteq> ''index.html''"
    by simp
  from analyzeRoot_fresh_contents [of site "''index.html''" "Some ''imports leaf''" indexDone]
  have inst: "parsedDocuments indexAgain ''index.html'' = None"
    "scannedDocuments indexAgain ''index.html'' = Some (length (promises indexDone))"
    "parsedDocuments indexAgain ''leaf.html'' = parsedDocuments indexDone ''leaf.html''"
    "scannedDocuments indexAgain ''leaf.html'' = scannedDocuments indexDone ''leaf.html''"
    "scanResolved ''leaf.html'' None indexAgain = (9, indexAgain)"
    unfolding Let_def r indexAgain_def [symmetric] using ne before(3) by auto
  show ?thesis
    using before after inst by simp
qed

text \<open>
  C4.  When the promise an import waits for is rejected with \<open>NoKnownParserError\<close>, the
  \<open>warnings\<close> array is unchanged and the import's own promise is fulfilled with \<open>null\<close>.
  When it is rejected with any other error, exactly one warning is appended to the
  \<open>warnings\<close> array of the containing document, with code \<open>could-not-load\<close>, severity
  \<open>ERROR\<close> and the import's source range, and again the import's promise is fulfilled with
  \<open>null\<close>.  A fulfilled promise does not reject the \<open>Promise.all\<close> of the containing
  document, and \<open>null\<close> is filtered out of the dependencies.
\<close>

theorem scanImport_failure:
  "(let s' = resume W (ScanImport_resolved rng ws) (Rejected (NoKnownParserError m)) target s in
      arrays s' = arrays s \<and> tasks s' = tasks s
      \<and> (target < length (promises s) \<and> promises s ! target = Pending
           \<longrightarrow> outcome_of s' target = Fulfilled Null)) \<and>
   ((\<forall>m. e \<noteq> NoKnownParserError m) \<longrightarrow>
    (let s' = resume W (ScanImport_resolved rng ws) (Rejected e) target s in
      arrays s' = (arrays s)[ws := arrays s ! ws @
          [\<lparr>warning_message = ''Unable to load import: '' @ errorMessage e,
            warning_sourceRange = rng, warning_severity = ERROR,
            warning_code = ''could-not-load''\<rparr>]]
      \<and> tasks s' = tasks s
      \<and> (target < length (promises s) \<and> promises s ! target = Pending
           \<longrightarrow> outcome_of s' target = Fulfilled Null))) \<and>
   nonNull (vs @ [Null] @ vs') = nonNull vs @ nonNull vs'"
proof -
  have a: "arrays (settle t oc s0) = arrays s0" "tasks (settle t oc s0) = tasks s0"
    "promises (push a w s0) = promises s0" "tasks (push a w s0) = tasks s0"
    for t oc s0 a w
    by (simp_all add: settle_def push_def)
  have o: "target < length (promises s0) \<and> promises s0 ! target = Pending
      \<longrightarrow> outcome_of (settle target oc s0) target = oc" for s0 oc
    by (simp add: outcome_settle)
  show ?thesis
    using o[of s] o[of "push ws w s" for w]
    by (cases e) (auto simp: resume_def Let_def a nonNull_append push_def couldNotLoad_def)
qed


theorem scanImport_failure_witness:
  "(let s = run 11 site indexStart;
        s' = resume site (ScanImport_resolved exampleRange 0) (Rejected cantLoadMissing) 6 s
    in 6 < length (promises s) \<and> promises s ! 6 = Pending \<and>
       map warning_code (arrays s ! 0) = [''parse-error''] \<and>
       arrays s' = (arrays s)[0 := arrays s ! 0 @
          [\<lparr>warning_message = ''Unable to load import: Can't load URL: missing.html'',
            warning_sourceRange = exampleRange, warning_severity = ERROR,
            warning_code = ''could-not-load''\<rparr>]] \<and>
       outcome_of s' 6 = Fulfilled Null \<and>
       map_option fst (pick s [] (tasks s))
         = Some (Task (ScanImport_resolved exampleRange 0) (Await 5) 6) \<and>
       awaited s (Await 5) = Rejected cantLoadMissing) \<and>
   (let s = run 15 site indexStart;
        s' = resume site (ScanImport_resolved exampleRange 0)
               (Rejected (NoKnownParserError ''No parser for for file type xyz'')) 4 s
    in 4 < length (promises s) \<and> promises s ! 4 = Pending \<and>
       arrays s' = arrays s \<and> outcome_of s' 4 = Fulfilled Null) \<and>
   step site indexDone = None \<and>
   (case outcome_of indexDone 1 of
      Fulfilled (ScannedDoc d) \<Rightarrow>
        map (doc_url \<circ> sd_document) (sd_dependencies d) = [''leaf.html''] \<and>
        map warning_code (sd_warnings d) = [''parse-error'', ''could-not-load''] \<and>
        length (sd_features d) = 5
    | _ \<Rightarrow> False)"
proof -
  let ?s11 = "run 11 site indexStart"
  let ?s15 = "run 15 site indexStart"
  have p11: "6 < length (promises ?s11) \<and> promises ?s11 ! 6 = Pending"
    "map warning_code (arrays ?s11 ! 0) = [''parse-error'']"
    "map_option fst (pick ?s11 [] (tasks ?s11))
       = Some (Task (ScanImport_resolved exampleRange 0) (Await 5) 6)"
    "awaited ?s11 (Await 5) = Rejected cantLoadMissing"
    by code_simp+
  have p15: "4 < length (promises ?s15) \<and> promises ?s15 ! 4 = Pending"
    by code_simp
  have fin: "step site indexDone = None"
    "(case outcome_of indexDone 1 of
      Fulfilled (ScannedDoc d) \<Rightarrow>
        map (doc_url \<circ> sd_document) (sd_dependencies d) = [''leaf.html''] \<and>
        map warning_code (sd_warnings d) = [''parse-error'', ''could-not-load''] \<and>
        length (sd_features d) = 5
    | _ \<Rightarrow> False)"
    by code_simp+
  have ne: "\<forall>m. cantLoadMissing \<noteq> NoKnownParserError m"
    by (simp add: cantLoadMissing_def)
  have msg: "''Unable to load import: '' @ errorMessage cantLoadMissing
      = ''Unable to load import: Can't load URL: missing.html''"
    by (simp add: cantLoadMissing_def)
  show ?thesis
    using scanImport_failure [where W = site and rng = exampleRange and ws = 0 and target = 6
        and s = ?s11 and e = cantLoadMissing]
      scanImport_failure [where W = site and rng = exampleRange and ws = 0 and target = 4
        and s = ?s15 and m = "''No parser for for file type xyz''"]
      p11 p15 fin ne
    unfolding Let_def msg by simp
qed

text \<open>
  C5.  When the scan of an inline document is rejected with a \<open>WarningCarryingException\<close>,
  its warning, with the source range corrected by the inline document's offset in the
  containing document, is appended to the container's \<open>warnings\<close> array, and the promise of
  \<open>_scanInlineDocument\<close> is fulfilled with \<open>null\<close>.  When it is rejected with any other error,
  no warning is added and the promise is rejected with that error; \<open>Promise.all\<close> of the
  containing \<open>_scanDocument\<close> is then rejected with it (if no earlier promise of the list is
  rejected), and \<open>_scanDocument\<close> resumed with a rejection rejects its own promise.
\<close>

theorem scanInlineDocument_failure:
  "(let s' = resume W (ScanInlineDocument_source off ws) (Rejected (WarningCarryingException w)) target s in
      arrays s' = (arrays s)[ws := arrays s ! ws @
          [w\<lparr>warning_sourceRange := correctSourceRange W (warning_sourceRange w) off\<rparr>]]
      \<and> tasks s' = tasks s
      \<and> (target < length (promises s) \<and> promises s ! target = Pending
           \<longrightarrow> outcome_of s' target = Fulfilled Null)) \<and>
   ((\<forall>w. e \<noteq> WarningCarryingException w) \<longrightarrow>
    (let s' = resume W (ScanInlineDocument_source off ws) (Rejected e) target s in
      arrays s' = arrays s \<and> tasks s' = tasks s
      \<and> (target < length (promises s) \<and> promises s ! target = Pending
           \<longrightarrow> outcome_of s' target = Rejected e
             \<and> (\<forall>ps ps'. list_all (\<lambda>p. \<not> isRejected (outcome_of s' p)) ps
                   \<longrightarrow> awaited s' (AwaitAll (ps @ [target] @ ps')) = Rejected e)
             \<and> (\<forall>doc fs loff a t. resume W (ScanDocument_all doc fs loff a) (Rejected e) t s'
                   = settle t (Rejected e) s'))))"
proof -
  have a: "arrays (settle t oc s0) = arrays s0" "tasks (settle t oc s0) = tasks s0"
    "promises (push a w s0) = promises s0" "tasks (push a w s0) = tasks s0"
    for t oc s0 a w
    by (simp_all add: settle_def push_def)
  have o: "target < length (promises s0) \<and> promises s0 ! target = Pending
      \<longrightarrow> outcome_of (settle target oc s0) target = oc" for s0 oc
    by (simp add: outcome_settle)
  have warn: "resume W (ScanInlineDocument_source off ws) (Rejected (WarningCarryingException w)) target s
      = settle target (Fulfilled Null)
          (push ws (w\<lparr>warning_sourceRange := correctSourceRange W (warning_sourceRange w) off\<rparr>) s)"
    by (simp add: resume_def)
  have other: "resume W (ScanInlineDocument_source off ws) (Rejected e) target s
      = settle target (Rejected e) s" if "\<forall>w. e \<noteq> WarningCarryingException w"
    using that by (cases e) (simp_all add: resume_def)
  have join: "resume W (ScanDocument_all doc fs loff a) (Rejected e) t s0 = settle t (Rejected e) s0"
    for doc fs loff a t s0
    by (simp add: resume_def)
  show ?thesis
    unfolding Let_def warn
    using o[of s "Rejected e"] o[of "push ws w s" "Fulfilled Null" for w] other awaited_all_rejected
    by (simp add: a join push_def del: awaited.simps)
qed


section \<open>Results: the editor RPC channel\<close>

text \<open>
  C10.  A response whose id matches no outstanding request is ignored: the handler returns
  normally and the channel (the map of outstanding requests and every deferred) is as it
  was, so nothing is resolved or rejected.  A response whose id matches an outstanding
  request and whose kind is neither \<open>resolution\<close> nor \<open>rejection\<close> makes the handler throw.
  Both hold for \<open>EditorServerChannel\<close> and for \<open>SelfChannel\<close>.
\<close>

theorem handleResponse_unmatched_ignored:
  "(outstandingRequests c (resp_id r) = None \<longrightarrow>
      EditorServerChannel_handleResponse c r = Inr c \<and>
      SelfChannel_handleResponse c r = Inr c) \<and>
   (outstandingRequests c (resp_id r) \<noteq> None \<and> resp_value r = OtherKind k \<longrightarrow>
      EditorServerChannel_handleResponse c r = Inl (UnknownResponseKind k) \<and>
      SelfChannel_handleResponse c r = Inl (UnknownResponseKind k))"
  by (auto simp: EditorServerChannel_handleResponse_def SelfChannel_handleResponse_def)

theorem handleResponse_unmatched_ignored_witness:
  "(let c = snd (request \<lparr>idCounter = 0, outstandingRequests = Map.empty, deferreds = []\<rparr>);
        r7 = \<lparr>resp_id = 7, resp_value = Resolution ''x''\<rparr>;
        r0 = \<lparr>resp_id = 0, resp_value = OtherKind ''progress''\<rparr>
    in outstandingRequests c 7 = None \<and>
       EditorServerChannel_handleResponse c r7 = Inr c \<and>
       SelfChannel_handleResponse c r7 = Inr c \<and>
       outstandingRequests c 0 \<noteq> None \<and>
       EditorServerChannel_handleResponse c r0 = Inl (UnknownResponseKind ''progress'') \<and>
       SelfChannel_handleResponse c r0 = Inl (UnknownResponseKind ''progress''))"
  using handleResponse_unmatched_ignored
    [of "snd (request \<lparr>idCounter = 0, outstandingRequests = Map.empty, deferreds = []\<rparr>)"
        "\<lparr>resp_id = 7, resp_value = Resolution ''x''\<rparr>" "''progress''"]
    handleResponse_unmatched_ignored
    [of "snd (request \<lparr>idCounter = 0, outstandingRequests = Map.empty, deferreds = []\<rparr>)"
        "\<lparr>resp_id = 0, resp_value = OtherKind ''progress''\<rparr>" "''progress''"]
  by (simp add: request_def Let_def)

section \<open>Results: attached comments\<close>

text \<open>
  C9.  \<open>getAttachedCommentText\<close> returns \<open>undefined\<close> when there is no preceding comment,
  when the nearest one is empty, and when \<open>@license\<close> occurs anywhere in it; in every
  other case it returns the nearest comment, unindented and then trimmed.  A comment with
  \<open>@license\<close> in it is therefore never returned.
\<close>

theorem getAttachedCommentText_license:
  "(walk node = [] \<longrightarrow> getAttachedCommentText unindent walk node = None) \<and>
   (\<forall>c cs. walk node = c # cs \<and> data c = [] \<longrightarrow>
      getAttachedCommentText unindent walk node = None) \<and>
   (\<forall>c cs p q. walk node = c # cs \<and> data c = p @ ''@license'' @ q \<longrightarrow>
      getAttachedCommentText unindent walk node = None) \<and>
   (\<forall>c cs. walk node = c # cs \<and> data c \<noteq> [] \<and> \<not> sublist ''@license'' (data c) \<longrightarrow>
      getAttachedCommentText unindent walk node = Some (trim (unindent (data c))))"
proof -
  have absent: "walk node = [] \<Longrightarrow> getAttachedCommentText unindent walk node = None"
    by (simp add: getAttachedCommentText_def)
  have empty: "getAttachedCommentText unindent walk node = None"
    if "walk node = c # cs" "data c = []" for c cs
    using that by (simp add: getAttachedCommentText_def)
  have license: "getAttachedCommentText unindent walk node = None"
    if "walk node = c # cs" "data c = p @ ''@license'' @ q" for c cs p q
  proof -
    have "sublist ''@license'' (data c)"
      unfolding that(2) by (rule sublist_appendI)
    then show ?thesis
      using that(1) by (simp add: getAttachedCommentText_def includes_sublist)
  qed
  have other: "getAttachedCommentText unindent walk node = Some (trim (unindent (data c)))"
    if "walk node = c # cs" "data c \<noteq> []" "\<not> sublist ''@license'' (data c)" for c cs
    using that by (simp add: getAttachedCommentText_def includes_sublist)
  show ?thesis
    using absent empty license other by blast
qed

theorem getAttachedCommentText_license_witness:
  "getAttachedCommentText id (\<lambda>n. []) (0::nat) = None \<and>
   getAttachedCommentText id (\<lambda>n. [\<lparr>data = []\<rparr>, \<lparr>data = ''doc''\<rparr>]) (0::nat) = None \<and>
   getAttachedCommentText id (\<lambda>n. [\<lparr>data = '' @license BSD''\<rparr>]) (0::nat) = None \<and>
   getAttachedCommentText id (\<lambda>n. [\<lparr>data = '' An element. ''\<rparr>]) (0::nat) = Some ''An element.''"
proof -
  have ns: "\<not> sublist ''@license'' '' An element. ''"
    unfolding includes_sublist [symmetric] by (simp add: prefix_def)
  have tr: "trim '' An element. '' = ''An element.''"
    by (simp add: trim_def isWhiteSpace_def)
  show ?thesis
    using getAttachedCommentText_license [of "\<lambda>n. []" "0::nat" id]
      getAttachedCommentText_license [of "\<lambda>n. [\<lparr>data = []\<rparr>, \<lparr>data = ''doc''\<rparr>]" "0::nat" id]
      getAttachedCommentText_license [of "\<lambda>n. [\<lparr>data = '' @license BSD''\<rparr>]" "0::nat" id,
        THEN conjunct2, THEN conjunct2, THEN conjunct1, rule_format,
        of "\<lparr>data = '' @license BSD''\<rparr>" "[]" "'' ''" "'' BSD''"]
      getAttachedCommentText_license [of "\<lambda>n. [\<lparr>data = '' An element. ''\<rparr>]" "0::nat" id]
      ns tr
    by simp
qed

end
